theory Spec2Isabelle
  imports Main "HOL-Library.Word"
begin

section \<open>The chat client script (script.js) as state transformers\<close>

text \<open>
  The script is a set of event handlers over a handful of page elements and three
  module variables. Each handler is embedded as a function from the page to the page
  it leaves behind. What the browser and the servers answer is an argument of the
  handler: the outcome of \<open>fetch\<close> for each request, the outcome of
  \<open>getUserMedia\<close>, and whether the recorder can be built and started.

  An \<open>async\<close> function is run to its end in one piece: every \<open>await\<close>
  is taken at once with the outcome the environment gives, so the interleaving of
  another event between a request and its reply is outside this development.
  A result \<open>Inl e\<close> says that the handler ended with \<open>e\<close> uncaught (a thrown
  exception, or a rejected promise that nobody handles); \<open>Inr s\<close> is the page after
  a handler that ended normally.
\<close>

subsection \<open>JavaScript values, errors, JSON bodies\<close>

text \<open>
  A string is the list of the code units of the JavaScript string (code units below 256).
\<close>

datatype js_error = JsError (error_name: string)

abbreviation TypeError :: js_error where
  "TypeError \<equiv> JsError ''TypeError''"

abbreviation SyntaxError :: js_error where
  "SyntaxError \<equiv> JsError ''SyntaxError''"

text \<open>
  The value of a property of a parsed JSON body. The script does three things with such
  a value: it calls \<open>.replace\<close> on it (only a string has that method), it tests it in an
  \<open>if\<close>, and it converts it to a string (template literal, assignment to an input's
  value). \<open>Other b r\<close> stands for any JSON number, boolean, array or object, given by
  what the script can observe of it: \<open>b\<close>, whether it is truthy, and \<open>r\<close>, its
  conversion to a string.
\<close>

datatype jsval = Undefined | Null | Str string | Other bool string

fun truthy :: "jsval \<Rightarrow> bool" where
  "truthy Undefined = False"
| "truthy Null = False"
| "truthy (Str t) = (t \<noteq> [])"
| "truthy (Other b r) = b"

fun to_string :: "jsval \<Rightarrow> string" where
  "to_string Undefined = ''undefined''"
| "to_string Null = ''null''"
| "to_string (Str t) = t"
| "to_string (Other b r) = r"

text \<open>
  What \<open>response.json()\<close> resolves to: \<open>null\<close>, a value that is no object with named
  fields of its own (number, boolean, string, array), or an object, given by its fields.
\<close>

datatype json = JsonNull | JsonNonObject | JsonObject "(string \<times> jsval) list"

text \<open>\<open>data.k\<close>: a TypeError on \<open>null\<close>, \<open>undefined\<close> for a field that is not there.\<close>

fun get_prop :: "json \<Rightarrow> string \<Rightarrow> js_error + jsval" where
  "get_prop JsonNull k = Inl TypeError"
| "get_prop JsonNonObject k = Inr Undefined"
| "get_prop (JsonObject kvs) k = Inr (case map_of kvs k of None \<Rightarrow> Undefined | Some v \<Rightarrow> v)"

subsection \<open>Requests and responses\<close>

type_synonym bytes = "8 word list"

text \<open>
  The body of a request is kept as the object handed to \<open>JSON.stringify\<close>, or as the one
  part of the multipart form: field name, content, content type, file name.
\<close>

datatype req_body = JsonBody "(string \<times> string) list" | FormBody string bytes string string

record request =
  url :: string
  http_method :: string
  content_type :: "string option"
  body :: req_body

text \<open>
  A response: its status, what \<open>json()\<close> gives (\<open>None\<close>: the promise rejects, the body
  is not JSON) and what \<open>blob()\<close> gives (\<open>None\<close>: the body cannot be read).
\<close>

record response =
  status :: nat
  json_body :: "json option"
  blob_body :: "bytes option"

definition ok :: "response \<Rightarrow> bool" where
  "ok r = (200 \<le> status r \<and> status r \<le> 299)"

datatype fetch_result = Rejected | Resolved response

type_synonym network = "request \<Rightarrow> fetch_result"

subsection \<open>The page\<close>

text \<open>
  A child of the chat box: the markup assigned to the paragraph's \<open>innerHTML\<close>, and the
  speaker icon appended to it, if any, given by the text its click handler holds.
\<close>

record element =
  innerHTML :: string
  speakIcon :: "string option"

text \<open>The two captions the script gives the microphone button (a microphone, a red dot with "Recording...").\<close>

datatype btn_text = MicCaption | RecordingCaption

text \<open>\<open>MediaRecorder.state\<close>; the script never pauses a recorder.\<close>

datatype recorder_state = Inactive | Recording

record page =
  chatBox :: "element list"
  userInput :: string
  voiceInputBtn_recording :: bool
  voiceInputBtn_text :: btn_text
  mentalHealthModeBtn_active :: bool
  studyBuddyModeBtn_active :: bool
  ttsAudio_src :: "bytes option"
  ttsAudio_playing :: bool
  currentChatMode :: string
  mediaRecorder :: "recorder_state option"
  audioChunks :: "bytes list"
  stream_live :: bool
  requests :: "request list"
  console :: "(string \<times> js_error) list"

text \<open>
  \<open>requests\<close> is the trace of the calls of \<open>fetch\<close>, \<open>console\<close> the trace of
  \<open>console.error\<close>; \<open>stream_live\<close> says that the tracks of the microphone stream are
  running. The page as the script finds it, with the module variables as declared:
\<close>

definition fresh_page :: page where
  "fresh_page = \<lparr> chatBox = [], userInput = [], voiceInputBtn_recording = False,
     voiceInputBtn_text = MicCaption, mentalHealthModeBtn_active = True,
     studyBuddyModeBtn_active = False, ttsAudio_src = None, ttsAudio_playing = False,
     currentChatMode = ''mental_health'', mediaRecorder = None, audioChunks = [],
     stream_live = False, requests = [], console = [] \<rparr>"

subsection \<open>displayMessage\<close>

text \<open>\<open>t.replace(/c/g, r)\<close> for a one-character pattern.\<close>

definition replace_all :: "char \<Rightarrow> string \<Rightarrow> string \<Rightarrow> string" where
  "replace_all c r t = concat (map (\<lambda>x. if x = c then r else [x]) t)"

definition sanitize :: "string \<Rightarrow> string" where
  "sanitize t = replace_all (CHR ''>'') ''&gt;'' (replace_all (CHR ''<'') ''&lt;'' t)"

text \<open>
  \<open>text.replace\<close> throws a TypeError unless \<open>text\<close> is a string, before anything is
  appended. The scroll position of the chat box is not part of the page record.
\<close>

fun displayMessage :: "string \<Rightarrow> jsval \<Rightarrow> bool \<Rightarrow> page \<Rightarrow> js_error + page" where
  "displayMessage sender (Str t) canSpeak s =
     Inr (s\<lparr>chatBox := chatBox s @
       [\<lparr> innerHTML = ''<strong>'' @ sender @ '':</strong> '' @ sanitize t,
          speakIcon = (if canSpeak \<and> sender = ''MindMate'' then Some t else None) \<rparr>]\<rparr>)"
| "displayMessage sender v canSpeak s = Inl TypeError"

text \<open>The escaping as the specification words it: each character on its own.\<close>

definition escape_char :: "char \<Rightarrow> string" where
  "escape_char c = (if c = CHR ''<'' then ''&lt;'' else if c = CHR ''>'' then ''&gt;'' else [c])"

subsection \<open>sendInitialGreeting and the load handler\<close>

definition chat_request :: "string \<Rightarrow> string \<Rightarrow> request" where
  "chat_request message chat_type =
     \<lparr> url = ''/chat'', http_method = ''POST'', content_type = Some ''application/json'',
       body = JsonBody [(''message'', message), (''chat_type'', chat_type)] \<rparr>"

definition greeting_text :: string where
  "greeting_text = ''Hello MindMate, I'm here.''"

definition greeting_failed_text :: string where
  "greeting_failed_text =
     ''I'm sorry, I couldn't start our conversation. Please try refreshing the page.''"

definition log_error :: "string \<Rightarrow> js_error \<Rightarrow> page \<Rightarrow> page" where
  "log_error label e s = s\<lparr>console := console s @ [(label, e)]\<rparr>"

text \<open>
  The inner \<open>case\<close> is the body of the \<open>try\<close>: \<open>Inl\<close> is what it throws. Nothing but
  the call of \<open>fetch\<close> has changed the page when it throws. There is no test of
  \<open>response.ok\<close> here.
\<close>

definition sendInitialGreeting :: "network \<Rightarrow> page \<Rightarrow> js_error + page" where
  "sendInitialGreeting net s =
     (let req = chat_request greeting_text (currentChatMode s);
          s1 = s\<lparr>requests := requests s @ [req]\<rparr>
      in case (case net req of
                 Rejected \<Rightarrow> Inl TypeError
               | Resolved resp \<Rightarrow>
                   (case json_body resp of
                      None \<Rightarrow> Inl SyntaxError
                    | Some data \<Rightarrow>
                        (case get_prop data ''response'' of
                           Inl e \<Rightarrow> Inl e
                         | Inr v \<Rightarrow> displayMessage ''MindMate'' v True s1))) of
           Inr s2 \<Rightarrow> Inr s2
         | Inl error \<Rightarrow>
             displayMessage ''MindMate'' (Str greeting_failed_text) False
               (log_error ''Error sending initial greeting:'' error s1))"

text \<open>An entry of \<open>initialHistory\<close>: its \<open>role\<close> and its \<open>text\<close>.\<close>

record history_entry =
  msg_role :: jsval
  msg_text :: jsval

text \<open>\<open>initialHistory.forEach\<close>: a callback that throws ends the loop and the handler.\<close>

fun forEach_display :: "history_entry list \<Rightarrow> page \<Rightarrow> js_error + page" where
  "forEach_display [] s = Inr s"
| "forEach_display (msg # rest) s =
     (case displayMessage (if msg_role msg = Str ''user'' then ''You'' else ''MindMate'')
             (msg_text msg) (msg_role msg = Str ''model'') s of
        Inl e \<Rightarrow> Inl e
      | Inr s' \<Rightarrow> forEach_display rest s')"

text \<open>\<open>None\<close>: the host page declares no \<open>initialHistory\<close>.\<close>

definition onload :: "history_entry list option \<Rightarrow> network \<Rightarrow> page \<Rightarrow> js_error + page" where
  "onload initialHistory net s =
     (case initialHistory of
        None \<Rightarrow> sendInitialGreeting net s
      | Some h \<Rightarrow> if length h > 0 then forEach_display h s else sendInitialGreeting net s)"

subsection \<open>sendMessage\<close>

text \<open>White space and line terminators of ECMAScript among the code units below 256.\<close>

definition is_space :: "char \<Rightarrow> bool" where
  "is_space c = (c \<in> set [CHR 0x09, CHR 0x0A, CHR 0x0B, CHR 0x0C, CHR 0x0D, CHR 0x20, CHR 0xA0])"

definition trim :: "string \<Rightarrow> string" where
  "trim t = rev (dropWhile is_space (rev (dropWhile is_space t)))"

definition send_failed_text :: string where
  "send_failed_text = ''Sorry, I'm having trouble responding right now. Please try again.''"

definition sendMessage :: "network \<Rightarrow> page \<Rightarrow> js_error + page" where
  "sendMessage net s =
     (let userText = trim (userInput s)
      in if userText = [] then Inr s
         else
           (case displayMessage ''You'' (Str userText) False s of
              Inl e \<Rightarrow> Inl e
            | Inr s0 \<Rightarrow>
                (let req = chat_request userText (currentChatMode s0);
                     s1 = s0\<lparr>userInput := [], requests := requests s0 @ [req]\<rparr>
                 in case (case net req of
                            Rejected \<Rightarrow> Inl TypeError
                          | Resolved resp \<Rightarrow>
                              if \<not> ok resp then Inl (JsError ''Error'')
                              else
                                (case json_body resp of
                                   None \<Rightarrow> Inl SyntaxError
                                 | Some data \<Rightarrow>
                                     (case get_prop data ''response'' of
                                        Inl e \<Rightarrow> Inl e
                                      | Inr v \<Rightarrow> displayMessage ''MindMate'' v True s1))) of
                      Inr s2 \<Rightarrow> Inr s2
                    | Inl error \<Rightarrow>
                        displayMessage ''MindMate'' (Str send_failed_text) False
                          (log_error ''Error sending message:'' error s1))))"

definition userInput_keypress :: "string \<Rightarrow> network \<Rightarrow> page \<Rightarrow> js_error + page" where
  "userInput_keypress key net s = (if key = ''Enter'' then sendMessage net s else Inr s)"

subsection \<open>Text to speech\<close>

definition tts_request :: "string \<Rightarrow> request" where
  "tts_request t =
     \<lparr> url = ''/text_to_speech'', http_method = ''POST'', content_type = Some ''application/json'',
       body = JsonBody [(''text'', t)] \<rparr>"

text \<open>
  On a 2xx answer the body becomes the source of the audio element and is played; the
  promise of \<open>play()\<close> is not awaited, and the object URL is left out of the page record.
\<close>

definition speakText :: "string \<Rightarrow> network \<Rightarrow> page \<Rightarrow> js_error + page" where
  "speakText t net s =
     (let req = tts_request t;
          s1 = s\<lparr>requests := requests s @ [req]\<rparr>
      in case (case net req of
                 Rejected \<Rightarrow> Inl TypeError
               | Resolved resp \<Rightarrow>
                   if ok resp then
                     (case blob_body resp of
                        None \<Rightarrow> Inl TypeError
                      | Some audioBlob \<Rightarrow>
                          Inr (s1\<lparr>ttsAudio_src := Some audioBlob, ttsAudio_playing := True\<rparr>))
                   else
                     (case json_body resp of
                        None \<Rightarrow> Inl SyntaxError
                      | Some errorData \<Rightarrow>
                          (case get_prop errorData ''error'' of
                             Inl e \<Rightarrow> Inl e
                           | Inr v \<Rightarrow>
                               displayMessage ''System''
                                 (Str (''Text-to-Speech Error: '' @ to_string v)) False s1))) of
           Inr s2 \<Rightarrow> Inr s2
         | Inl error \<Rightarrow>
             displayMessage ''System'' (Str ''Failed to convert response to speech.'') False
               (log_error ''Error with text-to-speech:'' error s1))"

text \<open>A click on the speaker icon of the \<open>i\<close>-th line of the chat box, if that line has one.\<close>

definition speakIcon_click :: "nat \<Rightarrow> network \<Rightarrow> page \<Rightarrow> js_error + page" where
  "speakIcon_click i net s =
     (if i < length (chatBox s) then
        (case speakIcon (chatBox s ! i) of
           None \<Rightarrow> Inr s
         | Some t \<Rightarrow> speakText t net s)
      else Inr s)"

subsection \<open>Speech to text: the microphone button and the recorder's handlers\<close>

text \<open>
  What the browser answers to a start request: \<open>getUserMedia\<close> resolves or rejects with an
  error of some name, and the constructor and the \<open>start\<close> method of the recorder may
  throw (\<open>Some\<close> error).
\<close>

datatype gum_result = Granted | GumRejected string

record mic_env =
  getUserMedia :: gum_result
  recorder_ctor :: "js_error option"
  recorder_start :: "js_error option"

definition mic_denied_text :: string where
  "mic_denied_text = ''Microphone access was denied. Please enable it in your browser's site settings and refresh the page.''"

definition mic_missing_text :: string where
  "mic_missing_text = ''No microphone was found. Please ensure a microphone is connected and enabled.''"

definition mic_other_text :: string where
  "mic_other_text = ''Could not access microphone. Please ensure permissions are granted and no other app is using it.''"

definition mic_error_text :: "string \<Rightarrow> string" where
  "mic_error_text name =
     (if name = ''NotAllowedError'' \<or> name = ''PermissionDeniedError'' then mic_denied_text
      else if name = ''NotFoundError'' \<or> name = ''DevicesNotFoundError'' then mic_missing_text
      else mic_other_text)"

text \<open>
  The body of the \<open>try\<close> of the start branch changes the page before it can throw, so what
  it throws comes with the page at that point. \<open>mediaRecorder.stop()\<close> makes the recorder
  inactive; the browser then delivers the last data and the stop event to the two
  handlers below.
\<close>

definition voiceInputBtn_click :: "mic_env \<Rightarrow> page \<Rightarrow> js_error + page" where
  "voiceInputBtn_click env s =
     (if voiceInputBtn_recording s then
        (let s1 = (case mediaRecorder s of
                     Some Recording \<Rightarrow> s\<lparr>mediaRecorder := Some Inactive\<rparr>
                   | _ \<Rightarrow> s)
         in Inr (s1\<lparr>voiceInputBtn_recording := False, voiceInputBtn_text := MicCaption\<rparr>))
      else
        (case (case getUserMedia env of
                 GumRejected name \<Rightarrow> Inl (JsError name, s)
               | Granted \<Rightarrow>
                   (let s1 = s\<lparr>stream_live := True, voiceInputBtn_recording := True,
                                voiceInputBtn_text := RecordingCaption\<rparr>
                    in case recorder_ctor env of
                         Some e \<Rightarrow> Inl (e, s1)
                       | None \<Rightarrow>
                           (let s2 = s1\<lparr>mediaRecorder := Some Inactive, audioChunks := []\<rparr>
                            in case recorder_start env of
                                 Some e \<Rightarrow> Inl (e, s2)
                               | None \<Rightarrow> Inr (s2\<lparr>mediaRecorder := Some Recording\<rparr>)))) of
           Inr s3 \<Rightarrow> Inr s3
         | Inl (error, s3) \<Rightarrow>
             displayMessage ''System'' (Str (mic_error_text (error_name error))) False
               ((log_error ''Error accessing microphone:'' error s3)
                  \<lparr>voiceInputBtn_recording := False, voiceInputBtn_text := MicCaption\<rparr>)))"

definition mediaRecorder_ondataavailable :: "bytes \<Rightarrow> page \<Rightarrow> page" where
  "mediaRecorder_ondataavailable chunk s = s\<lparr>audioChunks := audioChunks s @ [chunk]\<rparr>"

definition stt_request :: "bytes \<Rightarrow> request" where
  "stt_request audioBlob =
     \<lparr> url = ''/speech_to_text'', http_method = ''POST'', content_type = None,
       body = FormBody ''audio'' audioBlob ''audio/webm'' ''audio.webm'' \<rparr>"

text \<open>
  The body of the \<open>try\<close> gives \<open>Inl\<close> for what it throws and \<open>Inr\<close> for how the handler
  ends otherwise. \<open>sendMessage()\<close> is called without \<open>await\<close>: an error of that call would
  be a rejected promise that this \<open>catch\<close> never sees. The input field is taken to keep
  the string it is assigned.
\<close>

definition mediaRecorder_onstop :: "network \<Rightarrow> page \<Rightarrow> js_error + page" where
  "mediaRecorder_onstop net s =
     (let audioBlob = concat (audioChunks s);
          req = stt_request audioBlob;
          s1 = s\<lparr>stream_live := False, requests := requests s @ [req]\<rparr>
      in case (case net req of
                 Rejected \<Rightarrow> Inl TypeError
               | Resolved resp \<Rightarrow>
                   (case json_body resp of
                      None \<Rightarrow> Inl SyntaxError
                    | Some data \<Rightarrow>
                        (case get_prop data ''text'' of
                           Inl e \<Rightarrow> Inl e
                         | Inr txt \<Rightarrow>
                             if truthy txt then
                               Inr (sendMessage net (s1\<lparr>userInput := to_string txt\<rparr>))
                             else
                               (case get_prop data ''error'' of
                                  Inl e \<Rightarrow> Inl e
                                | Inr err \<Rightarrow>
                                    if truthy err then
                                      (case displayMessage ''System''
                                              (Str (''Speech-to-Text Error: '' @ to_string err))
                                              False s1 of
                                         Inl e \<Rightarrow> Inl e
                                       | Inr s2 \<Rightarrow> Inr (Inr s2))
                                    else Inr (Inr s1))))) of
           Inr result \<Rightarrow> result
         | Inl error \<Rightarrow>
             displayMessage ''System'' (Str ''Could not process audio for transcription.'') False
               (log_error ''Error sending audio for transcription:'' error s1))"

subsection \<open>Mode switching\<close>

definition mental_health_text :: string where
  "mental_health_text = ''Switched to Mental Health Assistant mode. How are you feeling today?''"

definition study_buddy_text :: string where
  "study_buddy_text = ''Switched to AI Study Buddy mode. What would you like to learn about?''"

definition switchMode :: "string \<Rightarrow> page \<Rightarrow> js_error + page" where
  "switchMode newMode s =
     (let s1 = s\<lparr>currentChatMode := newMode\<rparr>
      in if newMode = ''mental_health'' then
           displayMessage ''System'' (Str mental_health_text) False
             (s1\<lparr>mentalHealthModeBtn_active := True, studyBuddyModeBtn_active := False\<rparr>)
         else
           displayMessage ''System'' (Str study_buddy_text) False
             (s1\<lparr>studyBuddyModeBtn_active := True, mentalHealthModeBtn_active := False\<rparr>))"

definition mentalHealthModeBtn_click :: "network \<Rightarrow> page \<Rightarrow> js_error + page" where
  "mentalHealthModeBtn_click net s =
     (if currentChatMode s \<noteq> ''mental_health'' then
        (case switchMode ''mental_health'' (s\<lparr>chatBox := []\<rparr>) of
           Inl e \<Rightarrow> Inl e
         | Inr s1 \<Rightarrow> sendInitialGreeting net s1)
      else Inr s)"

definition studyBuddyModeBtn_click :: "network \<Rightarrow> page \<Rightarrow> js_error + page" where
  "studyBuddyModeBtn_click net s =
     (if currentChatMode s \<noteq> ''study_buddy'' then
        (case switchMode ''study_buddy'' (s\<lparr>chatBox := []\<rparr>) of
           Inl e \<Rightarrow> Inl e
         | Inr s1 \<Rightarrow> sendInitialGreeting net s1)
      else Inr s)"

subsection \<open>Events\<close>

text \<open>
  Everything that runs code of the script, plus the user's typing, which sets the value
  of the input field.
\<close>

datatype event =
    Load "history_entry list option" network
  | Typing string
  | Keypress string network
  | VoiceClick mic_env
  | DataAvailable bytes
  | RecorderStop network
  | SpeakClick nat network
  | MentalHealthClick network
  | StudyBuddyClick network

fun handle :: "event \<Rightarrow> page \<Rightarrow> js_error + page" where
  "handle (Load h net) s = onload h net s"
| "handle (Typing t) s = Inr (s\<lparr>userInput := t\<rparr>)"
| "handle (Keypress key net) s = userInput_keypress key net s"
| "handle (VoiceClick env) s = voiceInputBtn_click env s"
| "handle (DataAvailable chunk) s = Inr (mediaRecorder_ondataavailable chunk s)"
| "handle (RecorderStop net) s = mediaRecorder_onstop net s"
| "handle (SpeakClick i net) s = speakIcon_click i net s"
| "handle (MentalHealthClick net) s = mentalHealthModeBtn_click net s"
| "handle (StudyBuddyClick net) s = studyBuddyModeBtn_click net s"

subsection \<open>A history entry's line, as the specification words it\<close>

text \<open>
  A \<open>user\<close> entry is labelled as the user, any other as the assistant; the text is
  escaped; only a \<open>model\<close> entry gets the speaker icon.
\<close>

definition history_line :: "history_entry \<Rightarrow> element" where
  "history_line m =
     \<lparr> innerHTML = (if msg_role m = Str ''user'' then ''<strong>You:</strong> ''
                     else ''<strong>MindMate:</strong> '')
                  @ concat (map escape_char (to_string (msg_text m))),
       speakIcon = (if msg_role m = Str ''model'' then Some (to_string (msg_text m)) else None) \<rparr>"

section \<open>Rendering\<close>

lemma replace_all_Nil: "replace_all c r [] = []"
  by (simp add: replace_all_def)

lemma replace_all_Cons:
  "replace_all c r (x # t) = (if x = c then r else [x]) @ replace_all c r t"
  by (simp add: replace_all_def)

lemma replace_all_append:
  "replace_all c r (t @ u) = replace_all c r t @ replace_all c r u"
  by (simp add: replace_all_def)

lemma sanitize_chars: "sanitize t = concat (map escape_char t)"
proof (induction t)
  case Nil
  show ?case by (simp add: sanitize_def replace_all_Nil)
next
  case (Cons x t)
  have step: "sanitize (x # t) = escape_char x @ sanitize t"
    by (simp add: sanitize_def replace_all_Cons replace_all_append replace_all_Nil escape_char_def)
  show ?case using Cons.IH by (simp add: step)
qed

lemma escape_char_clean: "CHR ''<'' \<notin> set (escape_char c) \<and> CHR ''>'' \<notin> set (escape_char c)"
  by (simp add: escape_char_def)

lemma sanitize_clean: "CHR ''<'' \<notin> set (sanitize t) \<and> CHR ''>'' \<notin> set (sanitize t)"
  by (simp add: sanitize_chars escape_char_clean)

text \<open>
  C2. For every text \<open>t\<close>, sender and speakable flag, displayMessage appends exactly one line
  whose markup is the sender's label followed by a body that has no \<open><\<close> and no \<open>>\<close>:
  the body is \<open>t\<close> with every \<open><\<close> turned into \<open>&lt;\<close>, every \<open>>\<close> into \<open>&gt;\<close> and every
  other character kept.
\<close>

theorem displayMessage_escapes:
  "\<exists>b. displayMessage sender (Str t) canSpeak s =
        Inr (s\<lparr>chatBox := chatBox s @
          [\<lparr> innerHTML = ''<strong>'' @ sender @ '':</strong> '' @ b,
             speakIcon = (if canSpeak \<and> sender = ''MindMate'' then Some t else None) \<rparr>]\<rparr>)
     \<and> b = concat (map escape_char t)
     \<and> CHR ''<'' \<notin> set b \<and> CHR ''>'' \<notin> set b"
proof -
  have "CHR ''<'' \<notin> set (sanitize t)" and "CHR ''>'' \<notin> set (sanitize t)"
    using sanitize_clean [of t] by simp_all
  moreover have "sanitize t = concat (map escape_char t)"
    by (rule sanitize_chars)
  ultimately show ?thesis by simp
qed

lemma sanitize_id: "CHR ''<'' \<notin> set t \<Longrightarrow> CHR ''>'' \<notin> set t \<Longrightarrow> sanitize t = t"
  by (induction t) (auto simp: sanitize_def replace_all_def)

lemma displayMessage_cases:
  "displayMessage sender v c s = (case v of Str t \<Rightarrow>
     Inr (s\<lparr>chatBox := chatBox s @
       [\<lparr> innerHTML = ''<strong>'' @ sender @ '':</strong> '' @ sanitize t,
          speakIcon = (if c \<and> sender = ''MindMate'' then Some t else None) \<rparr>]\<rparr>) | _ \<Rightarrow> Inl TypeError)"
  by (cases v) simp_all

lemma sendInitialGreeting_effect:
  "\<exists>s' b i. sendInitialGreeting net s = Inr s'
     \<and> requests s' = requests s @ [chat_request greeting_text (currentChatMode s)]
     \<and> chatBox s' = chatBox s @ [\<lparr> innerHTML = ''<strong>MindMate:</strong> '' @ b, speakIcon = i \<rparr>]
     \<and> currentChatMode s' = currentChatMode s
     \<and> voiceInputBtn_recording s' = voiceInputBtn_recording s
     \<and> mediaRecorder s' = mediaRecorder s"
  by (auto simp: sendInitialGreeting_def Let_def log_error_def displayMessage_cases
      split: fetch_result.splits option.splits sum.splits jsval.splits)

lemma sendMessage_effect:
  "\<exists>s' ls. sendMessage net s = Inr s'
     \<and> requests s' = requests s @ (if trim (userInput s) = [] then [] else [chat_request (trim (userInput s)) (currentChatMode s)])
     \<and> chatBox s' = chatBox s @ ls
     \<and> currentChatMode s' = currentChatMode s
     \<and> voiceInputBtn_recording s' = voiceInputBtn_recording s
     \<and> mediaRecorder s' = mediaRecorder s"
  by (auto simp: sendMessage_def Let_def log_error_def displayMessage_cases
      split: fetch_result.splits option.splits sum.splits jsval.splits)

section \<open>What each handler leaves alone\<close>

lemma speakText_effect:
  "\<exists>s'. speakText t net s = Inr s'
     \<and> requests s' = requests s @ [tts_request t]
     \<and> voiceInputBtn_recording s' = voiceInputBtn_recording s
     \<and> mediaRecorder s' = mediaRecorder s"
  by (auto simp: speakText_def Let_def log_error_def displayMessage_cases
      split: fetch_result.splits option.splits sum.splits jsval.splits)

lemma forEach_display_frame:
  "forEach_display h s = Inr s' \<Longrightarrow>
     voiceInputBtn_recording s' = voiceInputBtn_recording s \<and> mediaRecorder s' = mediaRecorder s"
proof (induction h arbitrary: s)
  case Nil
  then show ?case by simp
next
  case (Cons m h)
  then show ?case
    by (auto simp: displayMessage_cases split: sum.splits jsval.splits)
qed

lemma onload_frame:
  "onload h net s = Inr s' \<Longrightarrow>
     voiceInputBtn_recording s' = voiceInputBtn_recording s \<and> mediaRecorder s' = mediaRecorder s"
  using sendInitialGreeting_effect [of net s]
  by (auto simp: onload_def dest!: forEach_display_frame split: option.splits if_splits)

lemma sendMessage_frame:
  "sendMessage net s = Inr s' \<Longrightarrow>
     voiceInputBtn_recording s' = voiceInputBtn_recording s \<and> mediaRecorder s' = mediaRecorder s"
  using sendMessage_effect [of net s] by auto

lemma speakText_frame:
  "speakText t net s = Inr s' \<Longrightarrow>
     voiceInputBtn_recording s' = voiceInputBtn_recording s \<and> mediaRecorder s' = mediaRecorder s"
  using speakText_effect [of t net s] by auto

lemma speakIcon_click_frame:
  "speakIcon_click i net s = Inr s' \<Longrightarrow>
     voiceInputBtn_recording s' = voiceInputBtn_recording s \<and> mediaRecorder s' = mediaRecorder s"
  by (auto simp: speakIcon_click_def dest!: speakText_frame split: option.splits if_splits)

lemma onstop_frame:
  "mediaRecorder_onstop net s = Inr s' \<Longrightarrow>
     voiceInputBtn_recording s' = voiceInputBtn_recording s \<and> mediaRecorder s' = mediaRecorder s"
  unfolding mediaRecorder_onstop_def Let_def
  by (auto simp: log_error_def displayMessage_cases dest!: sendMessage_frame
      split: fetch_result.splits option.splits sum.splits jsval.splits if_splits)

lemma switchMode_frame:
  "switchMode m s = Inr s' \<Longrightarrow>
     voiceInputBtn_recording s' = voiceInputBtn_recording s \<and> mediaRecorder s' = mediaRecorder s"
  by (auto simp: switchMode_def Let_def split: if_splits)

lemma sendInitialGreeting_frame:
  "sendInitialGreeting net s = Inr s' \<Longrightarrow>
     voiceInputBtn_recording s' = voiceInputBtn_recording s \<and> mediaRecorder s' = mediaRecorder s"
  using sendInitialGreeting_effect [of net s] by auto

lemma mode_click_frame:
  "mentalHealthModeBtn_click net s = Inr s' \<or> studyBuddyModeBtn_click net s = Inr s' \<Longrightarrow>
     voiceInputBtn_recording s' = voiceInputBtn_recording s \<and> mediaRecorder s' = mediaRecorder s"
  by (auto simp: mentalHealthModeBtn_click_def studyBuddyModeBtn_click_def
      dest!: switchMode_frame sendInitialGreeting_frame split: if_splits sum.splits)

lemma other_handlers_frame:
  "handle ev s = Inr s' \<Longrightarrow> \<forall>env. ev \<noteq> VoiceClick env \<Longrightarrow>
     voiceInputBtn_recording s' = voiceInputBtn_recording s \<and> mediaRecorder s' = mediaRecorder s"
proof (cases ev)
  case (Load h net)
  assume "handle ev s = Inr s'"
  with Load show ?thesis using onload_frame [of h net s s'] by simp
next
  case (Typing t)
  assume "handle ev s = Inr s'"
  with Typing show ?thesis by auto
next
  case (Keypress k net)
  assume "handle ev s = Inr s'"
  with Keypress show ?thesis
    using sendMessage_frame [of net s s'] by (auto simp: userInput_keypress_def split: if_splits)
next
  case (VoiceClick env)
  assume "\<forall>env. ev \<noteq> VoiceClick env"
  with VoiceClick show ?thesis by simp
next
  case (DataAvailable c)
  assume "handle ev s = Inr s'"
  with DataAvailable show ?thesis by (auto simp: mediaRecorder_ondataavailable_def)
next
  case (RecorderStop net)
  assume "handle ev s = Inr s'"
  with RecorderStop show ?thesis using onstop_frame [of net s s'] by simp
next
  case (SpeakClick i net)
  assume "handle ev s = Inr s'"
  with SpeakClick show ?thesis using speakIcon_click_frame [of i net s s'] by simp
next
  case (MentalHealthClick net)
  assume "handle ev s = Inr s'"
  with MentalHealthClick show ?thesis using mode_click_frame [of net s s'] by simp
next
  case (StudyBuddyClick net)
  assume "handle ev s = Inr s'"
  with StudyBuddyClick show ?thesis using mode_click_frame [of net s s'] by simp
qed

section \<open>Handlers that end normally\<close>

text \<open>
  Every handler but the load handler with a non-empty history ends normally, whatever the
  environment answers.
\<close>

lemma speakText_total: "\<exists>s'. speakText t net s = Inr s'"
  using speakText_effect [of t net s] by blast

lemma sendMessage_total: "\<exists>s'. sendMessage net s = Inr s'"
  using sendMessage_effect [of net s] by blast

lemma sendInitialGreeting_total: "\<exists>s'. sendInitialGreeting net s = Inr s'"
  using sendInitialGreeting_effect [of net s] by blast

lemma voiceInputBtn_click_total: "\<exists>s'. voiceInputBtn_click env s = Inr s'"
  by (auto simp: voiceInputBtn_click_def Let_def log_error_def
      split: gum_result.splits option.splits recorder_state.splits)

lemma onstop_total: "\<exists>s'. mediaRecorder_onstop net s = Inr s'"
  unfolding mediaRecorder_onstop_def Let_def
  by (auto simp: log_error_def displayMessage_cases sendMessage_total
      split: fetch_result.splits option.splits sum.splits jsval.splits)

lemma mode_click_total:
  "(\<exists>s'. mentalHealthModeBtn_click net s = Inr s') \<and> (\<exists>s'. studyBuddyModeBtn_click net s = Inr s')"
  by (auto simp: mentalHealthModeBtn_click_def studyBuddyModeBtn_click_def switchMode_def Let_def
      sendInitialGreeting_total)

lemma speakIcon_click_total: "\<exists>s'. speakIcon_click i net s = Inr s'"
  by (auto simp: speakIcon_click_def speakText_total split: option.splits)

lemma only_load_escapes:
  assumes "handle ev s = Inl e"
  shows "\<exists>h net. ev = Load (Some h) net \<and> h \<noteq> []"
proof (cases ev)
  case (Load h net)
  with assms sendInitialGreeting_effect [of net s] show ?thesis
    by (auto simp: onload_def split: option.splits if_splits)
next
  case (Typing t)
  with assms show ?thesis by simp
next
  case (Keypress k net)
  with assms sendMessage_effect [of net s] show ?thesis
    by (auto simp: userInput_keypress_def split: if_splits)
next
  case (VoiceClick env)
  with assms voiceInputBtn_click_total [of env s] show ?thesis by auto
next
  case (DataAvailable c)
  with assms show ?thesis by simp
next
  case (RecorderStop net)
  with assms onstop_total [of net s] show ?thesis by auto
next
  case (SpeakClick i net)
  with assms speakIcon_click_total [of i net s] show ?thesis by auto
next
  case (MentalHealthClick net)
  with assms mode_click_total [of net s] show ?thesis by auto
next
  case (StudyBuddyClick net)
  with assms mode_click_total [of net s] show ?thesis by auto
qed

section \<open>Sending a message\<close>

text \<open>
  C3. If the value of the input field trims to the empty string, sendMessage (and so the
  Enter key) ends normally and leaves the whole page as it was: no line is rendered, no
  request is issued, the input field and the mode are unchanged.
\<close>

theorem sendMessage_blank_noop:
  "trim (userInput s) = [] \<Longrightarrow> sendMessage net s = Inr s \<and> handle (Keypress ''Enter'' net) s = Inr s"
  by (simp add: sendMessage_def userInput_keypress_def)

theorem sendMessage_blank_noop_witness:
  "trim (userInput (fresh_page\<lparr>userInput := [CHR 0x20, CHR 0x09, CHR 0x20]\<rparr>)) = []
   \<and> sendMessage (\<lambda>r. Rejected) (fresh_page\<lparr>userInput := [CHR 0x20, CHR 0x09, CHR 0x20]\<rparr>)
       = Inr (fresh_page\<lparr>userInput := [CHR 0x20, CHR 0x09, CHR 0x20]\<rparr>)"
proof -
  have blank: "trim (userInput (fresh_page\<lparr>userInput := [CHR 0x20, CHR 0x09, CHR 0x20]\<rparr>)) = []"
    by (simp add: trim_def is_space_def)
  from sendMessage_blank_noop [OF blank, of "\<lambda>r. Rejected"] blank show ?thesis by simp
qed

text \<open>
  C7. If the input is not blank and the request to /chat is answered with a status outside
  200..299, sendMessage ends normally (no error escapes), has issued that one request, and
  has rendered the user's line followed by exactly one line, the fixed failure message of
  the assistant, whatever the body of the answer holds.
\<close>

theorem sendMessage_non2xx:
  assumes "trim (userInput s) \<noteq> []"
    and "net (chat_request (trim (userInput s)) (currentChatMode s)) = Resolved resp"
    and "\<not> ok resp"
  shows "\<exists>s'. sendMessage net s = Inr s'
     \<and> chatBox s' = chatBox s @
          [\<lparr> innerHTML = ''<strong>You:</strong> '' @ sanitize (trim (userInput s)), speakIcon = None \<rparr>,
           \<lparr> innerHTML = ''<strong>MindMate:</strong> Sorry, I'm having trouble responding right now. Please try again.'',
              speakIcon = None \<rparr>]
     \<and> requests s' = requests s @ [chat_request (trim (userInput s)) (currentChatMode s)]"
proof -
  have fixed: "sanitize send_failed_text = send_failed_text"
    by (rule sanitize_id) (simp_all add: send_failed_text_def)
  show ?thesis
    using assms by (simp add: sendMessage_def Let_def log_error_def fixed) (simp add: send_failed_text_def)
qed

theorem sendMessage_non2xx_witness:
  "\<exists>s'. sendMessage (\<lambda>r. Resolved \<lparr> status = 500,
            json_body = Some (JsonObject [(''response'', Str ''down'')]), blob_body = None \<rparr>)
          (fresh_page\<lparr>userInput := '' hi ''\<rparr>) = Inr s'
     \<and> chatBox s' = [\<lparr> innerHTML = ''<strong>You:</strong> hi'', speakIcon = None \<rparr>,
           \<lparr> innerHTML = ''<strong>MindMate:</strong> Sorry, I'm having trouble responding right now. Please try again.'',
              speakIcon = None \<rparr>]
     \<and> requests s' = [chat_request ''hi'' ''mental_health'']"
proof -
  let ?resp = "\<lparr> status = 500, json_body = Some (JsonObject [(''response'', Str ''down'')]),
                blob_body = None \<rparr>"
  have typed: "trim '' hi '' = ''hi''"
    by (simp add: trim_def is_space_def)
  have h1: "trim (userInput (fresh_page\<lparr>userInput := '' hi ''\<rparr>)) \<noteq> []"
    by (simp add: typed)
  have h2: "(\<lambda>r. Resolved ?resp) (chat_request (trim (userInput (fresh_page\<lparr>userInput := '' hi ''\<rparr>)))
              (currentChatMode (fresh_page\<lparr>userInput := '' hi ''\<rparr>))) = Resolved ?resp"
    by simp
  have h3: "\<not> ok ?resp"
    by (simp add: ok_def)
  from sendMessage_non2xx [OF h1 h2 h3] show ?thesis
    by (simp add: typed) (simp add: fresh_page_def sanitize_def replace_all_def)
qed

section \<open>Bootstrap\<close>

text \<open>
  C4. If initialHistory is absent or empty, the load handler ends normally and has issued
  exactly one request: a POST to /chat with the fixed greeting text and the current mode
  as chat_type. If that request is answered with a JSON body whose \<open>response\<close> is a
  string, exactly one line is rendered: that string as a message of the assistant with the
  speaker icon.
\<close>

theorem onload_no_history_greets:
  assumes "initialHistory = None \<or> initialHistory = Some []"
  shows "\<exists>s'. onload initialHistory net s = Inr s'
     \<and> requests s' = requests s @
          [\<lparr> url = ''/chat'', http_method = ''POST'', content_type = Some ''application/json'',
             body = JsonBody [(''message'', ''Hello MindMate, I'm here.''),
                              (''chat_type'', currentChatMode s)] \<rparr>]
     \<and> (\<forall>resp data reply.
           net (chat_request greeting_text (currentChatMode s)) = Resolved resp
           \<longrightarrow> json_body resp = Some data
           \<longrightarrow> get_prop data ''response'' = Inr (Str reply)
           \<longrightarrow> chatBox s' = chatBox s @
                 [\<lparr> innerHTML = ''<strong>MindMate:</strong> '' @ sanitize reply,
                    speakIcon = Some reply \<rparr>])"
proof -
  have run: "onload initialHistory net s = sendInitialGreeting net s"
    using assms by (auto simp: onload_def)
  obtain s' b i where s': "sendInitialGreeting net s = Inr s'"
    and reqs: "requests s' = requests s @ [chat_request greeting_text (currentChatMode s)]"
    using sendInitialGreeting_effect [of net s] by blast
  have reply: "chatBox s' = chatBox s @
      [\<lparr> innerHTML = ''<strong>MindMate:</strong> '' @ sanitize reply, speakIcon = Some reply \<rparr>]"
    if "net (chat_request greeting_text (currentChatMode s)) = Resolved resp"
      and "json_body resp = Some data" and "get_prop data ''response'' = Inr (Str reply)"
    for resp data reply
    using that s' by (auto simp: sendInitialGreeting_def Let_def)
  show ?thesis
    using run s' reqs reply by (auto simp: chat_request_def greeting_text_def)
qed

theorem onload_no_history_greets_witness:
  "\<exists>s'. onload None (\<lambda>r. Resolved \<lparr> status = 200,
            json_body = Some (JsonObject [(''response'', Str ''Hi <you>'')]), blob_body = None \<rparr>)
          fresh_page = Inr s'
     \<and> requests s' =
          [\<lparr> url = ''/chat'', http_method = ''POST'', content_type = Some ''application/json'',
             body = JsonBody [(''message'', ''Hello MindMate, I'm here.''),
                              (''chat_type'', ''mental_health'')] \<rparr>]
     \<and> chatBox s' = [\<lparr> innerHTML = ''<strong>MindMate:</strong> Hi &lt;you&gt;'',
                        speakIcon = Some ''Hi <you>'' \<rparr>]"
proof -
  let ?resp = "\<lparr> status = 200, json_body = Some (JsonObject [(''response'', Str ''Hi <you>'')]),
                blob_body = None \<rparr>"
  have absent: "(None :: history_entry list option) = None \<or> None = Some ([] :: history_entry list)"
    by simp
  from onload_no_history_greets [OF absent, of "\<lambda>r. Resolved ?resp" fresh_page]
  obtain s' where run: "onload None (\<lambda>r. Resolved ?resp) fresh_page = Inr s'"
    and reqs: "requests s' = requests fresh_page @
          [\<lparr> url = ''/chat'', http_method = ''POST'', content_type = Some ''application/json'',
             body = JsonBody [(''message'', ''Hello MindMate, I'm here.''),
                              (''chat_type'', currentChatMode fresh_page)] \<rparr>]"
    and line: "\<forall>resp data reply.
           (\<lambda>r. Resolved ?resp) (chat_request greeting_text (currentChatMode fresh_page)) = Resolved resp
           \<longrightarrow> json_body resp = Some data
           \<longrightarrow> get_prop data ''response'' = Inr (Str reply)
           \<longrightarrow> chatBox s' = chatBox fresh_page @
                 [\<lparr> innerHTML = ''<strong>MindMate:</strong> '' @ sanitize reply,
                    speakIcon = Some reply \<rparr>]"
    by blast
  have "chatBox s' = chatBox fresh_page @
      [\<lparr> innerHTML = ''<strong>MindMate:</strong> '' @ sanitize ''Hi <you>'', speakIcon = Some ''Hi <you>'' \<rparr>]"
    using line [rule_format, of ?resp "JsonObject [(''response'', Str ''Hi <you>'')]" "''Hi <you>''"]
    by simp
  with run reqs show ?thesis
    by (simp add: fresh_page_def sanitize_def replace_all_def)
qed

lemma forEach_display_strings:
  "\<forall>m \<in> set h. \<exists>t. msg_text m = Str t \<Longrightarrow>
   forEach_display h s = Inr (s\<lparr>chatBox := chatBox s @ map history_line h\<rparr>)"
proof (induction h arbitrary: s)
  case Nil
  show ?case by simp
next
  case (Cons m h)
  from Cons.prems obtain t where t: "msg_text m = Str t" by auto
  from Cons.prems have rest: "\<forall>m \<in> set h. \<exists>t. msg_text m = Str t" by simp
  show ?case
    using Cons.IH [OF rest] t
    by (simp add: history_line_def sanitize_chars)
qed

text \<open>
  C5. For a non-empty initialHistory whose entries hold strings as texts, the load handler
  ends normally, renders one line per entry in order (a \<open>user\<close> entry labelled as the
  user, any other as the assistant, the speaker icon on \<open>model\<close> entries only) and issues
  no request.
\<close>

theorem onload_history_renders:
  assumes "h \<noteq> []" and "\<forall>m \<in> set h. \<exists>t. msg_text m = Str t"
  shows "\<exists>s'. onload (Some h) net s = Inr s'
     \<and> chatBox s' = chatBox s @ map history_line h
     \<and> length (chatBox s') = length (chatBox s) + length h
     \<and> requests s' = requests s"
  using assms by (simp add: onload_def forEach_display_strings)

theorem onload_history_renders_witness:
  "\<exists>s'. onload (Some [\<lparr> msg_role = Str ''user'', msg_text = Str ''hi'' \<rparr>,
                       \<lparr> msg_role = Str ''model'', msg_text = Str ''hello'' \<rparr>])
            (\<lambda>r. Rejected) fresh_page = Inr s'
     \<and> chatBox s' = [\<lparr> innerHTML = ''<strong>You:</strong> hi'', speakIcon = None \<rparr>,
                      \<lparr> innerHTML = ''<strong>MindMate:</strong> hello'', speakIcon = Some ''hello'' \<rparr>]
     \<and> requests s' = []"
  using onload_history_renders
    [of "[\<lparr> msg_role = Str ''user'', msg_text = Str ''hi'' \<rparr>,
          \<lparr> msg_role = Str ''model'', msg_text = Str ''hello'' \<rparr>]" "\<lambda>r. Rejected" fresh_page]
  by (auto simp: history_line_def escape_char_def fresh_page_def)

section \<open>Mode switching\<close>

text \<open>
  C6. A click on the button of a mode other than the current one ends with the mode set to
  the new one and the chat box holding exactly two lines, none of them from before: the
  fixed System announcement of the new mode and the one line of the fresh greeting
  request, which is the only request issued. A click on the button of the current mode
  leaves the page as it was.
\<close>

theorem mode_buttons_switch:
  "(currentChatMode s \<noteq> ''study_buddy'' \<longrightarrow>
      (\<exists>s' b i. studyBuddyModeBtn_click net s = Inr s'
         \<and> currentChatMode s' = ''study_buddy''
         \<and> chatBox s' =
             [\<lparr> innerHTML = ''<strong>System:</strong> Switched to AI Study Buddy mode. What would you like to learn about?'',
                speakIcon = None \<rparr>,
              \<lparr> innerHTML = ''<strong>MindMate:</strong> '' @ b, speakIcon = i \<rparr>]
         \<and> requests s' = requests s @
             [\<lparr> url = ''/chat'', http_method = ''POST'', content_type = Some ''application/json'',
                body = JsonBody [(''message'', ''Hello MindMate, I'm here.''),
                                 (''chat_type'', ''study_buddy'')] \<rparr>]))
   \<and> (currentChatMode s = ''study_buddy'' \<longrightarrow> studyBuddyModeBtn_click net s = Inr s)
   \<and> (currentChatMode s \<noteq> ''mental_health'' \<longrightarrow>
      (\<exists>s' b i. mentalHealthModeBtn_click net s = Inr s'
         \<and> currentChatMode s' = ''mental_health''
         \<and> chatBox s' =
             [\<lparr> innerHTML = ''<strong>System:</strong> Switched to Mental Health Assistant mode. How are you feeling today?'',
                speakIcon = None \<rparr>,
              \<lparr> innerHTML = ''<strong>MindMate:</strong> '' @ b, speakIcon = i \<rparr>]
         \<and> requests s' = requests s @
             [\<lparr> url = ''/chat'', http_method = ''POST'', content_type = Some ''application/json'',
                body = JsonBody [(''message'', ''Hello MindMate, I'm here.''),
                                 (''chat_type'', ''mental_health'')] \<rparr>]))
   \<and> (currentChatMode s = ''mental_health'' \<longrightarrow> mentalHealthModeBtn_click net s = Inr s)"
proof -
  have sb_text: "sanitize study_buddy_text = study_buddy_text"
    by (rule sanitize_id) (simp_all add: study_buddy_text_def)
  have mh_text: "sanitize mental_health_text = mental_health_text"
    by (rule sanitize_id) (simp_all add: mental_health_text_def)
  define sb where "sb = s\<lparr>chatBox := [\<lparr> innerHTML = ''<strong>System:</strong> '' @ study_buddy_text, speakIcon = None \<rparr>],
        currentChatMode := ''study_buddy'', studyBuddyModeBtn_active := True, mentalHealthModeBtn_active := False\<rparr>"
  define mh where "mh = s\<lparr>chatBox := [\<lparr> innerHTML = ''<strong>System:</strong> '' @ mental_health_text, speakIcon = None \<rparr>],
        currentChatMode := ''mental_health'', mentalHealthModeBtn_active := True, studyBuddyModeBtn_active := False\<rparr>"
  have sw_sb: "switchMode ''study_buddy'' (s\<lparr>chatBox := []\<rparr>) = Inr sb"
    by (simp add: switchMode_def sb_def sb_text)
  have sw_mh: "switchMode ''mental_health'' (s\<lparr>chatBox := []\<rparr>) = Inr mh"
    by (simp add: switchMode_def mh_def mh_text)
  have A: "\<exists>s' b i. studyBuddyModeBtn_click net s = Inr s'
         \<and> currentChatMode s' = ''study_buddy''
         \<and> chatBox s' =
             [\<lparr> innerHTML = ''<strong>System:</strong> '' @ study_buddy_text, speakIcon = None \<rparr>,
              \<lparr> innerHTML = ''<strong>MindMate:</strong> '' @ b, speakIcon = i \<rparr>]
         \<and> requests s' = requests s @ [chat_request greeting_text ''study_buddy'']"
    if "currentChatMode s \<noteq> ''study_buddy''"
    using that sendInitialGreeting_effect [of net sb]
    by (auto simp: studyBuddyModeBtn_click_def sw_sb) (auto simp: sb_def)
  have B: "\<exists>s' b i. mentalHealthModeBtn_click net s = Inr s'
         \<and> currentChatMode s' = ''mental_health''
         \<and> chatBox s' =
             [\<lparr> innerHTML = ''<strong>System:</strong> '' @ mental_health_text, speakIcon = None \<rparr>,
              \<lparr> innerHTML = ''<strong>MindMate:</strong> '' @ b, speakIcon = i \<rparr>]
         \<and> requests s' = requests s @ [chat_request greeting_text ''mental_health'']"
    if "currentChatMode s \<noteq> ''mental_health''"
    using that sendInitialGreeting_effect [of net mh]
    by (auto simp: mentalHealthModeBtn_click_def sw_mh) (auto simp: mh_def)
  have C: "currentChatMode s = ''study_buddy'' \<Longrightarrow> studyBuddyModeBtn_click net s = Inr s"
    by (simp add: studyBuddyModeBtn_click_def)
  have D: "currentChatMode s = ''mental_health'' \<Longrightarrow> mentalHealthModeBtn_click net s = Inr s"
    by (simp add: mentalHealthModeBtn_click_def)
  from A B C D show ?thesis
    by (simp add: chat_request_def greeting_text_def study_buddy_text_def mental_health_text_def)
qed

theorem mode_buttons_switch_witness:
  "(\<exists>s' b i. studyBuddyModeBtn_click (\<lambda>r. Rejected) fresh_page = Inr s'
         \<and> currentChatMode s' = ''study_buddy''
         \<and> chatBox s' =
             [\<lparr> innerHTML = ''<strong>System:</strong> Switched to AI Study Buddy mode. What would you like to learn about?'',
                speakIcon = None \<rparr>,
              \<lparr> innerHTML = ''<strong>MindMate:</strong> '' @ b, speakIcon = i \<rparr>]
         \<and> requests s' =
             [\<lparr> url = ''/chat'', http_method = ''POST'', content_type = Some ''application/json'',
                body = JsonBody [(''message'', ''Hello MindMate, I'm here.''),
                                 (''chat_type'', ''study_buddy'')] \<rparr>])
   \<and> mentalHealthModeBtn_click (\<lambda>r. Rejected) fresh_page = Inr fresh_page
   \<and> (\<exists>s' b i. mentalHealthModeBtn_click (\<lambda>r. Rejected) (fresh_page\<lparr>currentChatMode := ''study_buddy''\<rparr>) = Inr s'
         \<and> currentChatMode s' = ''mental_health''
         \<and> chatBox s' =
             [\<lparr> innerHTML = ''<strong>System:</strong> Switched to Mental Health Assistant mode. How are you feeling today?'',
                speakIcon = None \<rparr>,
              \<lparr> innerHTML = ''<strong>MindMate:</strong> '' @ b, speakIcon = i \<rparr>])
   \<and> studyBuddyModeBtn_click (\<lambda>r. Rejected) (fresh_page\<lparr>currentChatMode := ''study_buddy''\<rparr>)
        = Inr (fresh_page\<lparr>currentChatMode := ''study_buddy''\<rparr>)"
proof -
  have m0: "currentChatMode fresh_page = ''mental_health''"
    by (simp add: fresh_page_def)
  have r0: "requests fresh_page = []"
    by (simp add: fresh_page_def)
  have m1: "currentChatMode (fresh_page\<lparr>currentChatMode := ''study_buddy''\<rparr>) = ''study_buddy''"
    by simp
  from mode_buttons_switch [of fresh_page "\<lambda>r. Rejected"]
       mode_buttons_switch [of "fresh_page\<lparr>currentChatMode := ''study_buddy''\<rparr>" "\<lambda>r. Rejected"]
  show ?thesis
    unfolding m0 m1 r0 by auto
qed

section \<open>Recording\<close>

text \<open>
  C8. When the recorder stops with no chunk collected, the stop handler ends normally and
  has issued, first, a POST to /speech_to_text whose form holds a zero-byte audio part;
  no other request of this handler goes to that endpoint.
\<close>

theorem onstop_empty_submits:
  assumes "audioChunks s = []"
  shows "\<exists>s' rest. mediaRecorder_onstop net s = Inr s'
     \<and> requests s' = requests s @
          \<lparr> url = ''/speech_to_text'', http_method = ''POST'', content_type = None,
             body = FormBody ''audio'' [] ''audio/webm'' ''audio.webm'' \<rparr> # rest
     \<and> length (filter (\<lambda>r. url r = ''/speech_to_text'') rest) = 0"
proof -
  define s1 where "s1 = s\<lparr>stream_live := False, requests := requests s @ [stt_request []]\<rparr>"
  have sent: "\<exists>s' rest. sendMessage net (s1\<lparr>userInput := u\<rparr>) = Inr s'
      \<and> requests s' = requests s @ stt_request [] # rest
      \<and> length (filter (\<lambda>r. url r = ''/speech_to_text'') rest) = 0" for u
    using sendMessage_effect [of net "s1\<lparr>userInput := u\<rparr>"]
    by (auto simp: s1_def chat_request_def)
  have "\<exists>s' rest. mediaRecorder_onstop net s = Inr s'
      \<and> requests s' = requests s @ stt_request [] # rest
      \<and> length (filter (\<lambda>r. url r = ''/speech_to_text'') rest) = 0"
    unfolding mediaRecorder_onstop_def Let_def assms
    using sent
    by (auto simp: s1_def [symmetric] log_error_def displayMessage_cases
        split: fetch_result.splits option.splits sum.splits jsval.splits)
       (auto simp: s1_def)
  then show ?thesis by (simp add: stt_request_def)
qed

theorem onstop_empty_submits_witness:
  "\<exists>s' rest. mediaRecorder_onstop (\<lambda>r. Rejected) (fresh_page\<lparr>mediaRecorder := Some Inactive\<rparr>) = Inr s'
     \<and> requests s' =
          \<lparr> url = ''/speech_to_text'', http_method = ''POST'', content_type = None,
             body = FormBody ''audio'' [] ''audio/webm'' ''audio.webm'' \<rparr> # rest
     \<and> length (filter (\<lambda>r. url r = ''/speech_to_text'') rest) = 0"
proof -
  have empty: "audioChunks (fresh_page\<lparr>mediaRecorder := Some Inactive\<rparr>) = []"
    by (simp add: fresh_page_def)
  have "requests (fresh_page\<lparr>mediaRecorder := Some Inactive\<rparr>) = []"
    by (simp add: fresh_page_def)
  with onstop_empty_submits [OF empty, of "\<lambda>r. Rejected"] show ?thesis
    by simp
qed

lemma voice_click_enters:
  assumes "voiceInputBtn_click env s = Inr s'"
    and "(\<not> voiceInputBtn_recording s \<and> voiceInputBtn_recording s')
         \<or> (mediaRecorder s \<noteq> Some Recording \<and> mediaRecorder s' = Some Recording)"
  shows "getUserMedia env = Granted"
  using assms
  by (auto simp: voiceInputBtn_click_def Let_def log_error_def displayMessage_cases
      split: if_splits gum_result.splits option.splits recorder_state.splits)

lemma voice_click_rejected:
  assumes "\<not> voiceInputBtn_recording s" and "getUserMedia env = GumRejected name"
  shows "voiceInputBtn_click env s =
     Inr (s\<lparr>console := console s @ [(''Error accessing microphone:'', JsError name)],
            voiceInputBtn_recording := False, voiceInputBtn_text := MicCaption,
            chatBox := chatBox s @
              [\<lparr> innerHTML = ''<strong>System:</strong> '' @ mic_error_text name, speakIcon = None \<rparr>]\<rparr>)"
proof -
  have "sanitize (mic_error_text name) = mic_error_text name"
    by (rule sanitize_id)
      (simp_all add: mic_error_text_def mic_denied_text_def mic_missing_text_def mic_other_text_def)
  then show ?thesis
    using assms by (simp add: voiceInputBtn_click_def log_error_def)
qed

text \<open>
  C9. Whatever the event, the recording flag of the button, and likewise the recording
  state of the recorder, is entered only by a click on the microphone button whose
  request for the microphone is granted. When the request is rejected while the flag
  is off, the flag stays off, the caption is the idle one, the recorder is untouched and
  one System line is rendered, with the text of the category of the error: denied, no
  device, other. (By \<open>only_load_escapes\<close> the premise that the handler ends normally
  leaves out no event but a load.)
\<close>

theorem recording_only_after_grant:
  "(handle ev s = Inr s' \<longrightarrow> \<not> voiceInputBtn_recording s \<longrightarrow> voiceInputBtn_recording s'
      \<longrightarrow> (\<exists>env. ev = VoiceClick env \<and> getUserMedia env = Granted))
   \<and> (handle ev s = Inr s' \<longrightarrow> mediaRecorder s \<noteq> Some Recording \<longrightarrow> mediaRecorder s' = Some Recording
      \<longrightarrow> (\<exists>env. ev = VoiceClick env \<and> getUserMedia env = Granted))
   \<and> (\<not> voiceInputBtn_recording s \<longrightarrow> getUserMedia env = GumRejected name
      \<longrightarrow> (\<exists>s''. handle (VoiceClick env) s = Inr s''
            \<and> \<not> voiceInputBtn_recording s'' \<and> voiceInputBtn_text s'' = MicCaption
            \<and> mediaRecorder s'' = mediaRecorder s
            \<and> chatBox s'' = chatBox s @
                [\<lparr> innerHTML = ''<strong>System:</strong> '' @
                     (if name = ''NotAllowedError'' \<or> name = ''PermissionDeniedError''
                      then ''Microphone access was denied. Please enable it in your browser's site settings and refresh the page.''
                      else if name = ''NotFoundError'' \<or> name = ''DevicesNotFoundError''
                      then ''No microphone was found. Please ensure a microphone is connected and enabled.''
                      else ''Could not access microphone. Please ensure permissions are granted and no other app is using it.''),
                   speakIcon = None \<rparr>]))"
proof -
  have enter: "\<exists>env. ev = VoiceClick env \<and> getUserMedia env = Granted"
    if run: "handle ev s = Inr s'"
      and change: "(\<not> voiceInputBtn_recording s \<and> voiceInputBtn_recording s')
         \<or> (mediaRecorder s \<noteq> Some Recording \<and> mediaRecorder s' = Some Recording)"
  proof (cases "\<exists>env. ev = VoiceClick env")
    case True
    then obtain env where ev: "ev = VoiceClick env" by blast
    with run have "voiceInputBtn_click env s = Inr s'" by simp
    from voice_click_enters [OF this change] ev show ?thesis by simp
  next
    case False
    with other_handlers_frame [OF run] change show ?thesis by auto
  qed
  have denied: "\<exists>s''. handle (VoiceClick env) s = Inr s''
            \<and> \<not> voiceInputBtn_recording s'' \<and> voiceInputBtn_text s'' = MicCaption
            \<and> mediaRecorder s'' = mediaRecorder s
            \<and> chatBox s'' = chatBox s @
                [\<lparr> innerHTML = ''<strong>System:</strong> '' @ mic_error_text name, speakIcon = None \<rparr>]"
    if "\<not> voiceInputBtn_recording s" and "getUserMedia env = GumRejected name"
    using voice_click_rejected [OF that] by simp
  have texts: "mic_error_text name =
      (if name = ''NotAllowedError'' \<or> name = ''PermissionDeniedError''
                      then ''Microphone access was denied. Please enable it in your browser's site settings and refresh the page.''
                      else if name = ''NotFoundError'' \<or> name = ''DevicesNotFoundError''
                      then ''No microphone was found. Please ensure a microphone is connected and enabled.''
                      else ''Could not access microphone. Please ensure permissions are granted and no other app is using it.'')"
    by (simp add: mic_error_text_def mic_denied_text_def mic_missing_text_def mic_other_text_def)
  show ?thesis
    using enter denied unfolding texts [symmetric] by blast
qed

theorem recording_only_after_grant_witness:
  "handle (VoiceClick \<lparr> getUserMedia = Granted, recorder_ctor = None, recorder_start = None \<rparr>) fresh_page
     = Inr (fresh_page\<lparr>stream_live := True, voiceInputBtn_recording := True,
              voiceInputBtn_text := RecordingCaption, mediaRecorder := Some Recording\<rparr>)
   \<and> (\<exists>env. VoiceClick \<lparr> getUserMedia = Granted, recorder_ctor = None, recorder_start = None \<rparr> = VoiceClick env
          \<and> getUserMedia env = Granted)
   \<and> (\<exists>s''. handle (VoiceClick \<lparr> getUserMedia = GumRejected ''NotFoundError'', recorder_ctor = None,
                                   recorder_start = None \<rparr>) fresh_page = Inr s''
          \<and> \<not> voiceInputBtn_recording s'' \<and> voiceInputBtn_text s'' = MicCaption
          \<and> mediaRecorder s'' = None
          \<and> chatBox s'' =
              [\<lparr> innerHTML = ''<strong>System:</strong> No microphone was found. Please ensure a microphone is connected and enabled.'',
                 speakIcon = None \<rparr>])"
proof -
  let ?yes = "\<lparr> getUserMedia = Granted, recorder_ctor = None, recorder_start = None \<rparr>"
  let ?no = "\<lparr> getUserMedia = GumRejected ''NotFoundError'', recorder_ctor = None, recorder_start = None \<rparr>"
  let ?on = "fresh_page\<lparr>stream_live := True, voiceInputBtn_recording := True,
              voiceInputBtn_text := RecordingCaption, mediaRecorder := Some Recording\<rparr>"
  have run: "handle (VoiceClick ?yes) fresh_page = Inr ?on"
    by (simp add: voiceInputBtn_click_def fresh_page_def)
  have off: "\<not> voiceInputBtn_recording fresh_page" and on: "voiceInputBtn_recording ?on"
    and idle: "mediaRecorder fresh_page = None" and empty: "chatBox fresh_page = []"
    by (simp_all add: fresh_page_def)
  have rejected: "getUserMedia ?no = GumRejected ''NotFoundError''"
    by simp
  from recording_only_after_grant [of "VoiceClick ?yes" fresh_page ?on ?no "''NotFoundError''"]
  show ?thesis
    using run off on rejected unfolding idle empty by auto
qed

section \<open>Listening to a reply\<close>

text \<open>
  C10. For every text \<open>t\<close>, the line displayMessage renders for a speakable message of
  the assistant shows the escaped text, while a click on its speaker icon posts to
  /text_to_speech a body whose \<open>text\<close> is \<open>t\<close> itself, unescaped.
\<close>

theorem listen_posts_original_text:
  "\<exists>s'. displayMessage ''MindMate'' (Str t) True s = Inr s'
     \<and> innerHTML (last (chatBox s')) = ''<strong>MindMate:</strong> '' @ sanitize t
     \<and> speakIcon (last (chatBox s')) = Some t
     \<and> (\<exists>s''. speakIcon_click (length (chatBox s)) net s' = Inr s''
           \<and> requests s'' = requests s @
               [\<lparr> url = ''/text_to_speech'', http_method = ''POST'',
                  content_type = Some ''application/json'', body = JsonBody [(''text'', t)] \<rparr>])"
proof -
  define s' where "s' = s\<lparr>chatBox := chatBox s @
       [\<lparr> innerHTML = ''<strong>MindMate:</strong> '' @ sanitize t, speakIcon = Some t \<rparr>]\<rparr>"
  have shown: "displayMessage ''MindMate'' (Str t) True s = Inr s'"
    by (simp add: s'_def)
  have click: "speakIcon_click (length (chatBox s)) net s' = speakText t net s'"
    by (simp add: speakIcon_click_def s'_def)
  obtain s'' where "speakText t net s' = Inr s''" and "requests s'' = requests s' @ [tts_request t]"
    using speakText_effect [of t net s'] by blast
  with shown click show ?thesis
    by (simp add: s'_def tts_request_def)
qed

section \<open>Failures and their messages\<close>

text \<open>
  A rejected \<open>fetch\<close> is reported by each of the three handlers that can meet one, with
  one fixed line and one console trace.
\<close>

lemma rejected_fetch_reported:
  assumes "\<forall>r. net r = Rejected"
  shows "sendInitialGreeting net s =
           Inr (s\<lparr>requests := requests s @ [chat_request greeting_text (currentChatMode s)],
                  console := console s @ [(''Error sending initial greeting:'', TypeError)],
                  chatBox := chatBox s @
                    [\<lparr> innerHTML = ''<strong>MindMate:</strong> '' @ greeting_failed_text,
                       speakIcon = None \<rparr>]\<rparr>)"
    and "speakText t net s =
           Inr (s\<lparr>requests := requests s @ [tts_request t],
                  console := console s @ [(''Error with text-to-speech:'', TypeError)],
                  chatBox := chatBox s @
                    [\<lparr> innerHTML = ''<strong>System:</strong> Failed to convert response to speech.'',
                       speakIcon = None \<rparr>]\<rparr>)"
    and "mediaRecorder_onstop net s =
           Inr (s\<lparr>stream_live := False,
                  requests := requests s @ [stt_request (concat (audioChunks s))],
                  console := console s @ [(''Error sending audio for transcription:'', TypeError)],
                  chatBox := chatBox s @
                    [\<lparr> innerHTML = ''<strong>System:</strong> Could not process audio for transcription.'',
                       speakIcon = None \<rparr>]\<rparr>)"
proof -
  have fixed: "sanitize greeting_failed_text = greeting_failed_text"
    by (rule sanitize_id) (simp_all add: greeting_failed_text_def)
  show "sendInitialGreeting net s =
           Inr (s\<lparr>requests := requests s @ [chat_request greeting_text (currentChatMode s)],
                  console := console s @ [(''Error sending initial greeting:'', TypeError)],
                  chatBox := chatBox s @
                    [\<lparr> innerHTML = ''<strong>MindMate:</strong> '' @ greeting_failed_text,
                       speakIcon = None \<rparr>]\<rparr>)"
    using assms by (simp add: sendInitialGreeting_def Let_def log_error_def fixed)
  show "speakText t net s =
           Inr (s\<lparr>requests := requests s @ [tts_request t],
                  console := console s @ [(''Error with text-to-speech:'', TypeError)],
                  chatBox := chatBox s @
                    [\<lparr> innerHTML = ''<strong>System:</strong> Failed to convert response to speech.'',
                       speakIcon = None \<rparr>]\<rparr>)"
    using assms by (simp add: speakText_def Let_def log_error_def sanitize_def replace_all_def)
  show "mediaRecorder_onstop net s =
           Inr (s\<lparr>stream_live := False,
                  requests := requests s @ [stt_request (concat (audioChunks s))],
                  console := console s @ [(''Error sending audio for transcription:'', TypeError)],
                  chatBox := chatBox s @
                    [\<lparr> innerHTML = ''<strong>System:</strong> Could not process audio for transcription.'',
                       speakIcon = None \<rparr>]\<rparr>)"
    using assms by (simp add: mediaRecorder_onstop_def Let_def log_error_def sanitize_def replace_all_def)
qed

text \<open>
  C1. Every failed network interaction should end in exactly one rendered failure message,
  the greeting request answered with a non-2xx status among them. Only sendMessage and
  speakText test the status of the response. Here the script runs on a fresh page against
  a server that answers 500 to every request: the greeting renders the body's
  \<open>response\<close> as an ordinary speakable reply of the assistant, and the stop handler
  of the recorder, given a body with neither \<open>text\<close> nor \<open>error\<close>, renders nothing
  at all; neither writes a console trace.
\<close>

theorem unchecked_status_renders_no_failure:
  "sendInitialGreeting
     (\<lambda>r. Resolved \<lparr> status = 500,
         json_body = Some (JsonObject [(''response'', Str ''Internal Server Error'')]),
         blob_body = None \<rparr>) fresh_page
   = Inr (fresh_page\<lparr>
       chatBox := [\<lparr> innerHTML = ''<strong>MindMate:</strong> Internal Server Error'',
                     speakIcon = Some ''Internal Server Error'' \<rparr>],
       requests := [chat_request greeting_text ''mental_health'']\<rparr>)
   \<and> mediaRecorder_onstop
     (\<lambda>r. Resolved \<lparr> status = 500, json_body = Some (JsonObject [(''message'', Str ''Internal Server Error'')]),
         blob_body = None \<rparr>) fresh_page
   = Inr (fresh_page\<lparr>requests := [stt_request []]\<rparr>)"
  by (simp add: sendInitialGreeting_def mediaRecorder_onstop_def fresh_page_def Let_def
      sanitize_def replace_all_def)

end
